theory Spec2Isabelle
  imports Complex_Main "HOL-Library.AList" "HOL-Library.Multiset"
begin

section \<open>Data model\<close>

text \<open>
  The records follow \<^verbatim>\<open>src/types/index.ts\<close>. The numeric input fields that the spec
  describes as integers (head counts, preparation times, shelf lives) are mathematical
  integers here; the embedding is exact as long as every value stays inside the
  safe-integer range of an IEEE double, where JavaScript's arithmetic on integers is exact.

  \<^verbatim>\<open>Quantity\<close> is a \<open>number\<close>: the quantity resolver divides by \<^verbatim>\<open>meal.NumberOfPeople\<close>,
  and a division by zero does not raise in JavaScript but yields \<^verbatim>\<open>Infinity\<close>,
  \<^verbatim>\<open>-Infinity\<close> or \<^verbatim>\<open>NaN\<close>, which then flows into the quantity. The sign of a zero is
  not distinguished (it is invisible to every operation of the program).

  A string is the list of its bytes in UTF-8.
\<close>

datatype number = Num int | Infinity | NegInfinity | NaN

text \<open>
  \<^verbatim>\<open>MaxShelfLifeInDays\<close> may be absent (the property is missing, \<^verbatim>\<open>undefined\<close>): \<open>None\<close>.
  The field \<^verbatim>\<open>URL\<close> is read by \<^verbatim>\<open>rankMeals\<close> (\<^verbatim>\<open>p.URL\<close>) although the type declaration
  under \<^verbatim>\<open>src/types\<close> does not list it; the spec's data model names it
  ("a reference URL").
\<close>

record Meal =
  Slug :: string
  Meal :: string
  PreparationTimeMinutes :: int
  CanBeLeftovers :: bool
  NumberOfPeople :: int

record Product =
  Meal :: string
  Quantity :: number
  MaxShelfLifeInDays :: "int option"
  IsBonusRequired :: bool
  ID :: string
  URL :: string

record WeekDay =
  Day :: string
  Date :: string
  NumberOfPeople :: int
  NumberOfPeopleLeftovers :: int
  MaxPreparationTime :: int

section \<open>Numbers\<close>

text \<open>\<^verbatim>\<open>a * b\<close> on numbers, with the IEEE rules for infinities and NaN.\<close>

fun num_times :: "number \<Rightarrow> number \<Rightarrow> number" where
  "num_times (Num a) (Num b) = Num (a * b)"
| "num_times NaN _ = NaN"
| "num_times _ NaN = NaN"
| "num_times (Num a) Infinity = (if a = 0 then NaN else if 0 < a then Infinity else NegInfinity)"
| "num_times (Num a) NegInfinity = (if a = 0 then NaN else if 0 < a then NegInfinity else Infinity)"
| "num_times Infinity (Num b) = (if b = 0 then NaN else if 0 < b then Infinity else NegInfinity)"
| "num_times NegInfinity (Num b) = (if b = 0 then NaN else if 0 < b then NegInfinity else Infinity)"
| "num_times Infinity Infinity = Infinity"
| "num_times Infinity NegInfinity = NegInfinity"
| "num_times NegInfinity Infinity = NegInfinity"
| "num_times NegInfinity NegInfinity = Infinity"

text \<open>
  \<^verbatim>\<open>Math.ceil(a / b)\<close> for integers \<open>a\<close> and \<open>b\<close>. For \<open>b = 0\<close> the quotient is
  \<^verbatim>\<open>Infinity\<close>, \<^verbatim>\<open>-Infinity\<close> or \<^verbatim>\<open>NaN\<close> (for \<open>0 / 0\<close>), and \<^verbatim>\<open>Math.ceil\<close> returns it
  unchanged. Otherwise the ceiling of the quotient is computed with the integer
  division of HOL, which rounds towards minus infinity.
\<close>

definition Math_ceil_div :: "int \<Rightarrow> int \<Rightarrow> number" where
  "Math_ceil_div a b =
     (if b = 0 then (if 0 < a then Infinity else if a < 0 then NegInfinity else NaN)
      else Num (- ((- a) div b)))"

section \<open>Quantity resolver\<close>

text \<open>
  \<^verbatim>\<open>getRequiredProductsForMeal\<close> of the rich variant (\<^verbatim>\<open>part_001\<close>, lines 104-123): the
  caller has already selected the meal's ingredients. The object spread \<^verbatim>\<open>{...p, Quantity: _}\<close>
  builds a fresh object with every field of \<open>p\<close> and a new quantity: a record update.
\<close>

definition getRequiredProductsForMeal ::
  "WeekDay \<Rightarrow> Meal \<Rightarrow> Product list \<Rightarrow> bool \<Rightarrow> Product list" where
  "getRequiredProductsForMeal day meal ingredients options_isMealLeftoverValid =
     map (\<lambda>p.
        let multiplier = Math_ceil_div
              (if options_isMealLeftoverValid
               then WeekDay.NumberOfPeople day + NumberOfPeopleLeftovers day
               else Meal.NumberOfPeople meal)
              (Meal.NumberOfPeople meal)
        in p\<lparr>Quantity := num_times (Quantity p) multiplier\<rparr>) ingredients"

text \<open>
  The strict variant (\<^verbatim>\<open>part_000\<close>, lines 108-129) receives the whole catalog and first
  keeps the products of this meal.
\<close>

definition getRequiredProductsForMeal_strict ::
  "WeekDay \<Rightarrow> Meal \<Rightarrow> Product list \<Rightarrow> bool \<Rightarrow> Product list" where
  "getRequiredProductsForMeal_strict day meal products options_isMealLeftoverValid =
     map (\<lambda>p.
        let multiplier = Math_ceil_div
              (if options_isMealLeftoverValid
               then WeekDay.NumberOfPeople day + NumberOfPeopleLeftovers day
               else Meal.NumberOfPeople meal)
              (Meal.NumberOfPeople meal)
        in p\<lparr>Quantity := num_times (Quantity p) multiplier\<rparr>)
       (filter (\<lambda>p. Product.Meal p = Slug meal) products)"

section \<open>Constraint evaluators\<close>

definition isPreparationTimeValid :: "Meal \<Rightarrow> WeekDay \<Rightarrow> bool" where
  "isPreparationTimeValid meal day \<longleftrightarrow> PreparationTimeMinutes meal \<le> MaxPreparationTime day"

definition isMealLeftoverValid :: "WeekDay \<Rightarrow> Meal \<Rightarrow> bool" where
  "isMealLeftoverValid day meal \<longleftrightarrow>
     Day day \<noteq> ''Sunday'' \<or> (0 < NumberOfPeopleLeftovers day \<and> CanBeLeftovers meal)"

text \<open>
  Rich variant (\<^verbatim>\<open>part_001\<close>, lines 158-168): \<^verbatim>\<open>filter\<close> the ingredients that require a
  discount, then \<^verbatim>\<open>every\<close> one of them must be in the list of discounted identifiers.
  \<^verbatim>\<open>p.ID.toString()\<close> of a string is the string.
\<close>

definition isRequiredProductDiscountsValid :: "Product list \<Rightarrow> string list \<Rightarrow> bool" where
  "isRequiredProductDiscountsValid ingredients bonusProductIds =
     (let ingredientsRequiringBonus = filter IsBonusRequired ingredients
      in list_all (\<lambda>p. ID p \<in> set bonusProductIds) ingredientsRequiringBonus)"

text \<open>
  Strict variant (\<^verbatim>\<open>part_000\<close>, lines 164-172): \<^verbatim>\<open>some\<close> product requires a discount
  and is not in the list.
\<close>

definition isRequiredProductDiscountsValid_strict :: "Product list \<Rightarrow> string list \<Rightarrow> bool" where
  "isRequiredProductDiscountsValid_strict productsRequired bonusProductIds =
     list_ex (\<lambda>p. IsBonusRequired p \<and> \<not> ID p \<in> set bonusProductIds) productsRequired"

text \<open>
  \<^verbatim>\<open>new Date(date).getDay()\<close> is a service of the JavaScript runtime whose result depends
  on the host's time zone and on the runtime's date parser. It is a parameter \<open>getDay\<close> of
  the model: \<open>Some d\<close> with \<open>d\<close> the day of the week (0 for Sunday up to 6 for Saturday),
  or \<open>None\<close> for an invalid date, where \<^verbatim>\<open>getDay()\<close> is \<^verbatim>\<open>NaN\<close>.

  \<^verbatim>\<open>day === 0 ? 7 : day\<close> leaves \<^verbatim>\<open>NaN\<close> as it is.
\<close>

definition dayInWeek :: "nat option \<Rightarrow> int option" where
  "dayInWeek day = (case day of None \<Rightarrow> None | Some d \<Rightarrow> Some (if d = 0 then 7 else int d))"

text \<open>
  \<^verbatim>\<open>x >= y\<close> where \<open>x\<close> may be \<^verbatim>\<open>undefined\<close> and \<open>y\<close> may be \<^verbatim>\<open>NaN\<close>: both compare
  false with everything.
\<close>

definition num_ge :: "int option \<Rightarrow> int option \<Rightarrow> bool" where
  "num_ge x y = (case (x, y) of (Some a, Some b) \<Rightarrow> b \<le> a | _ \<Rightarrow> False)"

text \<open>\<^verbatim>\<open>!x\<close> for a number that may be absent: true for \<^verbatim>\<open>undefined\<close> and for \<^verbatim>\<open>0\<close>.\<close>

definition falsy :: "int option \<Rightarrow> bool" where
  "falsy x \<longleftrightarrow> x = None \<or> x = Some 0"

text \<open>Rich variant (\<^verbatim>\<open>part_001\<close>, lines 175-190).\<close>

definition isProductShelfLifeValid ::
  "(string \<Rightarrow> nat option) \<Rightarrow> Product list \<Rightarrow> string \<Rightarrow> bool" where
  "isProductShelfLifeValid getDay productsRequired date =
     (let deliveryDayInWeek = 2;
          day = getDay date
      in list_all (\<lambda>p.
           falsy (MaxShelfLifeInDays p) \<or>
           num_ge (MaxShelfLifeInDays p)
                  (map_option (\<lambda>w. w - deliveryDayInWeek) (dayInWeek day)))
         productsRequired)"

text \<open>Strict variant (\<^verbatim>\<open>part_000\<close>, lines 179-191): the comparison alone.\<close>

definition isProductShelfLifeValid_strict ::
  "(string \<Rightarrow> nat option) \<Rightarrow> Product list \<Rightarrow> string \<Rightarrow> bool" where
  "isProductShelfLifeValid_strict getDay productsRequired date =
     (let deliveryDayInWeek = 2;
          day = getDay date
      in list_all (\<lambda>p.
           num_ge (MaxShelfLifeInDays p)
                  (map_option (\<lambda>w. w - deliveryDayInWeek) (dayInWeek day)))
         productsRequired)"

definition hasIngredients :: "Product list \<Rightarrow> bool" where
  "hasIngredients productsRequired \<longleftrightarrow> 0 < length productsRequired"

section \<open>Shopping list\<close>

text \<open>
  \<^verbatim>\<open>Number.prototype.toString\<close> on an integer below \<open>10^21\<close> prints its decimal digits.
\<close>

fun digits :: "nat \<Rightarrow> string" where
  "digits n = (if n < 10 then [''0123456789'' ! n]
               else digits (n div 10) @ [''0123456789'' ! (n mod 10)])"

declare digits.simps [simp del]

fun Number_toString :: "number \<Rightarrow> string" where
  "Number_toString (Num i) = (if i < 0 then ''-'' @ digits (nat (- i)) else digits (nat i))"
| "Number_toString Infinity = ''Infinity''"
| "Number_toString NegInfinity = ''-Infinity''"
| "Number_toString NaN = ''NaN''"

text \<open>
  The \<^verbatim>\<open>URL\<close> object of the runtime, as far as \<^verbatim>\<open>createShoppingList\<close> uses it: the
  address given to the constructor (which has no query and is already in normal form)
  and the list of query parameters. \<^verbatim>\<open>searchParams.append\<close> adds a pair at the end;
  \<^verbatim>\<open>toString\<close> is the address followed, if there are parameters, by \<^verbatim>\<open>?\<close> and their
  \<^verbatim>\<open>application/x-www-form-urlencoded\<close> serialisation: a space becomes \<^verbatim>\<open>+\<close>, the
  ASCII letters and digits and \<^verbatim>\<open>*-._\<close> stand for themselves, and every other byte is
  written as \<^verbatim>\<open>%\<close> and two upper-case hexadecimal digits (so \<^verbatim>\<open>:\<close> is written
  \<^verbatim>\<open>%3A\<close>); name and value are joined by \<^verbatim>\<open>=\<close>, the pairs by \<^verbatim>\<open>&\<close>.
\<close>

record URLObject =
  address :: string
  searchParams :: "(string \<times> string) list"

definition URL_new :: "string \<Rightarrow> URLObject" where
  "URL_new s = \<lparr>address = s, searchParams = []\<rparr>"

definition searchParams_append :: "string \<Rightarrow> string \<Rightarrow> URLObject \<Rightarrow> URLObject" where
  "searchParams_append name val url = url\<lparr>searchParams := searchParams url @ [(name, val)]\<rparr>"

definition hexDigit :: "nat \<Rightarrow> char" where
  "hexDigit n = ''0123456789ABCDEF'' ! n"

definition urlencodedPlain :: "char \<Rightarrow> bool" where
  "urlencodedPlain c \<longleftrightarrow>
     c \<in> set ''ABCDEFGHIJKLMNOPQRSTUVWXYZabcdefghijklmnopqrstuvwxyz0123456789*-._''"

definition urlencodedByte :: "char \<Rightarrow> string" where
  "urlencodedByte c =
     (if c = CHR '' '' then ''+''
      else if urlencodedPlain c then [c]
      else [CHR ''%'', hexDigit (of_char c div 16), hexDigit (of_char c mod 16)])"

definition urlencoded :: "string \<Rightarrow> string" where
  "urlencoded s = concat (map urlencodedByte s)"

fun join :: "string \<Rightarrow> string list \<Rightarrow> string" where
  "join sep [] = []"
| "join sep [x] = x"
| "join sep (x # y # ys) = x @ sep @ join sep (y # ys)"

definition urlencodedSerialize :: "(string \<times> string) list \<Rightarrow> string" where
  "urlencodedSerialize params =
     join ''&'' (map (\<lambda>(name, val). urlencoded name @ ''='' @ urlencoded val) params)"

definition URL_toString :: "URLObject \<Rightarrow> string" where
  "URL_toString url =
     address url @
     (if searchParams url = [] then [] else ''?'' @ urlencodedSerialize (searchParams url))"

text \<open>
  \<^verbatim>\<open>createShoppingList\<close> (\<^verbatim>\<open>part_001\<close>, lines 337-343). The \<^verbatim>\<open>forEach\<close> is a fold over
  the products, with the URL object as the state.
\<close>

definition createShoppingList :: "Product list \<Rightarrow> string" where
  "createShoppingList productsRequired =
     (let url = URL_new ''https://www.ah.nl/mijnlijst/add-multiple'';
          url' = fold (\<lambda>p. searchParams_append ''p'' (ID p @ '':'' @ Number_toString (Quantity p)))
                   productsRequired url
      in URL_toString url')"

text \<open>
  Reading a query string back, to say what a URL encodes: the parser of
  \<^verbatim>\<open>application/x-www-form-urlencoded\<close> splits at \<^verbatim>\<open>&\<close>, skips the empty pieces,
  splits each piece at its first \<^verbatim>\<open>=\<close>, turns \<^verbatim>\<open>+\<close> into a space and \<^verbatim>\<open>%\<close> followed
  by two hexadecimal digits into the byte with that code. It is not part of the
  program; the shopping-list theorem uses it to state which parameters the returned URL
  carries.
\<close>

definition isHexDigit :: "char \<Rightarrow> bool" where
  "isHexDigit c \<longleftrightarrow> c \<in> set ''0123456789ABCDEFabcdef''"

definition hexValue :: "char \<Rightarrow> nat" where
  "hexValue c = min (length (takeWhile (\<lambda>d. d \<noteq> c) ''0123456789ABCDEF''))
                    (length (takeWhile (\<lambda>d. d \<noteq> c) ''0123456789abcdef''))"

fun urldecoded :: "string \<Rightarrow> string" where
  "urldecoded (c # h1 # h2 # rest) =
     (if c = CHR ''%'' \<and> isHexDigit h1 \<and> isHexDigit h2
      then char_of (hexValue h1 * 16 + hexValue h2) # urldecoded rest
      else (if c = CHR ''+'' then CHR '' '' else c) # urldecoded (h1 # h2 # rest))"
| "urldecoded (c # rest) = (if c = CHR ''+'' then CHR '' '' else c) # urldecoded rest"
| "urldecoded [] = []"

fun splitOn :: "char \<Rightarrow> string \<Rightarrow> string list" where
  "splitOn sep [] = [[]]"
| "splitOn sep (c # cs) =
     (if c = sep then [] # splitOn sep cs
      else (case splitOn sep cs of [] \<Rightarrow> [[c]] | w # ws \<Rightarrow> (c # w) # ws))"

definition urlencodedParse :: "string \<Rightarrow> (string \<times> string) list" where
  "urlencodedParse s =
     map (\<lambda>piece. (urldecoded (takeWhile (\<lambda>c. c \<noteq> CHR ''='') piece),
                    urldecoded (drop 1 (dropWhile (\<lambda>c. c \<noteq> CHR ''='') piece))))
       (filter (\<lambda>piece. piece \<noteq> []) (splitOn CHR ''&'' s))"

text \<open>The query of a URL string: what follows the first \<^verbatim>\<open>?\<close>.\<close>

definition queryOf :: "string \<Rightarrow> string" where
  "queryOf s = drop 1 (dropWhile (\<lambda>c. c \<noteq> CHR ''?'') s)"

section \<open>Ranking engine, rich variant\<close>

text \<open>
  A committed plan entry is the meal with three more properties
  (\<^verbatim>\<open>{...meal, productsRequired, productsDiscounted, shoppingList}\<close>).
\<close>

record PlannedMeal = Meal +
  productsRequired :: "Product list"
  productsDiscounted :: "string list"
  shoppingList :: string

text \<open>
  The plan is a JavaScript object used as a dictionary from day names to a planned
  meal or \<^verbatim>\<open>null\<close>. It is an association list in insertion order: \<^verbatim>\<open>plan[k] = v\<close>
  replaces the value of a key that is present, in place, and adds a new key at the end,
  which is \<open>AList.update\<close>; \<^verbatim>\<open>Object.values\<close> is \<open>map snd\<close>.

  This is the behaviour of an object for ordinary property names, such as the names of
  the days of the week. Two kinds of names are outside the model: \<^verbatim>\<open>__proto__\<close>, whose
  assignment sets the prototype instead of a property, and array indices such as
  \<^verbatim>\<open>0\<close> or \<^verbatim>\<open>17\<close>, which an object enumerates before its other keys.
\<close>

type_synonym Plan = "(string \<times> PlannedMeal option) list"

definition isNotInPlan :: "Meal \<Rightarrow> Plan \<Rightarrow> bool" where
  "isNotInPlan meal plan =
     (let meals = filter (\<lambda>p. p \<noteq> None) (map snd plan)
      in \<not> list_ex (\<lambda>m. map_option Slug m = Some (Slug meal)) meals)"

datatype error = TypeError

text \<open>
  Steps 0 and 1 of the loop body of \<^verbatim>\<open>rankMeals\<close> (\<^verbatim>\<open>part_001\<close>, lines 235-283): pair
  every meal with its ingredients, sort by preparation time descending (the sort of the
  runtime is stable; \<open>sort_key\<close> is the stable insertion sort), keep the pairs that
  satisfy the six conditions.
\<close>

definition withIngredients :: "Meal list \<Rightarrow> Product list \<Rightarrow> (Meal \<times> Product list) list" where
  "withIngredients meals products =
     map (\<lambda>meal. (meal, filter (\<lambda>p. Product.Meal p = Slug meal) products)) meals"

definition fitsDay ::
  "(string \<Rightarrow> nat option) \<Rightarrow> string list \<Rightarrow> Plan \<Rightarrow> WeekDay \<Rightarrow> Meal \<times> Product list \<Rightarrow> bool" where
  "fitsDay getDay bonusProductIds plan day = (\<lambda>(meal, ingredients).
     let productsRequired =
           getRequiredProductsForMeal day meal ingredients (isMealLeftoverValid day meal)
     in hasIngredients ingredients \<and>
        isNotInPlan meal plan \<and>
        isPreparationTimeValid meal day \<and>
        isMealLeftoverValid day meal \<and>
        isRequiredProductDiscountsValid productsRequired bonusProductIds \<and>
        isProductShelfLifeValid getDay productsRequired (Date day))"

definition survivors ::
  "(string \<Rightarrow> nat option) \<Rightarrow> Meal list \<Rightarrow> string list \<Rightarrow> Product list \<Rightarrow> Plan \<Rightarrow> WeekDay
     \<Rightarrow> (Meal \<times> Product list) list" where
  "survivors getDay meals bonusProductIds products plan day =
     filter (fitsDay getDay bonusProductIds plan day)
       (sort_key (\<lambda>(meal, ingredients). - PreparationTimeMinutes meal)
          (withIngredients meals products))"

text \<open>Step 2 (lines 285-308): the planned meal and its score.\<close>

definition scoreMeal :: "string list \<Rightarrow> WeekDay \<Rightarrow> Meal \<times> Product list \<Rightarrow> PlannedMeal \<times> nat" where
  "scoreMeal bonusProductIds day = (\<lambda>(meal, ingredients).
     let productsRequired =
           getRequiredProductsForMeal day meal ingredients (isMealLeftoverValid day meal);
         productsDiscounted = filter (\<lambda>p. ID p \<in> set bonusProductIds) productsRequired;
         score = length productsDiscounted
     in (\<lparr>Slug = Slug meal, Meal = Meal.Meal meal,
          PreparationTimeMinutes = PreparationTimeMinutes meal,
          CanBeLeftovers = CanBeLeftovers meal,
          NumberOfPeople = Meal.NumberOfPeople meal,
          productsRequired = productsRequired,
          productsDiscounted = map URL productsDiscounted,
          shoppingList = createShoppingList productsRequired\<rparr>,
         score))"

text \<open>Step 3 (line 310): sort by score descending; \<open>matches\<close> of the source.\<close>

definition matchesForDay ::
  "(string \<Rightarrow> nat option) \<Rightarrow> Meal list \<Rightarrow> string list \<Rightarrow> Product list \<Rightarrow> Plan \<Rightarrow> WeekDay
     \<Rightarrow> (PlannedMeal \<times> nat) list" where
  "matchesForDay getDay meals bonusProductIds products plan day =
     sort_key (\<lambda>(meal, score). - int score)
       (map (scoreMeal bonusProductIds day)
          (survivors getDay meals bonusProductIds products plan day))"

text \<open>
  The rest of the loop body (lines 312-324). \<^verbatim>\<open>Math.random()\<close> is the parameter
  \<open>random\<close>: \<open>random k\<close> is the value of the call number \<open>k\<close> of the run, and the state
  of the loop is the plan together with the number of calls made so far. The runtime
  promises \<open>0 \<le> random k < 1\<close>; the product with the length is taken in the rationals,
  which agrees with the floating-point product on the only property used below, that
  the index is below the length. An index outside the array would read \<^verbatim>\<open>undefined\<close>,
  and \<^verbatim>\<open>undefined.meal\<close> raises \<^verbatim>\<open>TypeError\<close>.
\<close>

definition rankDay ::
  "(string \<Rightarrow> nat option) \<Rightarrow> (nat \<Rightarrow> rat) \<Rightarrow> Meal list \<Rightarrow> string list \<Rightarrow> Product list
     \<Rightarrow> WeekDay \<Rightarrow> Plan \<times> nat \<Rightarrow> error + Plan \<times> nat" where
  "rankDay getDay random meals bonusProductIds products day = (\<lambda>(plan, calls).
     let matches = matchesForDay getDay meals bonusProductIds products plan day
     in case matches of
          [] \<Rightarrow> Inr (AList.update (Day day) None plan, calls)
        | best # _ \<Rightarrow>
            if snd best \<noteq> 0 then Inr (AList.update (Day day) (Some (fst best)) plan, calls)
            else
              let randIndex = \<lfloor>random calls * of_nat (length matches)\<rfloor>
              in if 0 \<le> randIndex \<and> randIndex < int (length matches)
                 then Inr (AList.update (Day day) (Some (fst (matches ! nat randIndex))) plan,
                           Suc calls)
                 else Inl TypeError)"

fun rankLoop ::
  "(string \<Rightarrow> nat option) \<Rightarrow> (nat \<Rightarrow> rat) \<Rightarrow> Meal list \<Rightarrow> string list \<Rightarrow> Product list
     \<Rightarrow> WeekDay list \<Rightarrow> Plan \<times> nat \<Rightarrow> error + Plan \<times> nat" where
  "rankLoop getDay random meals bonusProductIds products [] st = Inr st"
| "rankLoop getDay random meals bonusProductIds products (day # days) st =
     (case rankDay getDay random meals bonusProductIds products day st of
        Inl e \<Rightarrow> Inl e
      | Inr st' \<Rightarrow> rankLoop getDay random meals bonusProductIds products days st')"

definition rankMeals ::
  "(string \<Rightarrow> nat option) \<Rightarrow> (nat \<Rightarrow> rat) \<Rightarrow> Meal list \<Rightarrow> string list \<Rightarrow> Product list
     \<Rightarrow> WeekDay list \<Rightarrow> error + Plan" where
  "rankMeals getDay random meals bonusProductIds products weekPlan =
     (case rankLoop getDay random meals bonusProductIds products weekPlan ([], 0) of
        Inl e \<Rightarrow> Inl e
      | Inr (plan, calls) \<Rightarrow> Inr plan)"

section \<open>Ranking engine, strict variant\<close>

text \<open>
  \<^verbatim>\<open>matchMeals\<close> (\<^verbatim>\<open>part_000\<close>, lines 204-265): one entry per day, in the order of the
  week, \<^verbatim>\<open>null\<close> when no meal fits.
\<close>

definition fitsDay_strict ::
  "(string \<Rightarrow> nat option) \<Rightarrow> string list \<Rightarrow> Product list \<Rightarrow> WeekDay \<Rightarrow> Meal \<Rightarrow> bool" where
  "fitsDay_strict getDay bonusProductIds products day meal =
     (let productsRequired =
            getRequiredProductsForMeal_strict day meal products (isMealLeftoverValid day meal)
      in isPreparationTimeValid meal day \<and>
         isMealLeftoverValid day meal \<and>
         isRequiredProductDiscountsValid_strict productsRequired bonusProductIds \<and>
         isProductShelfLifeValid_strict getDay productsRequired (Date day))"

definition scoreMeal_strict ::
  "string list \<Rightarrow> Product list \<Rightarrow> WeekDay \<Rightarrow> Meal \<Rightarrow> Meal \<times> nat" where
  "scoreMeal_strict bonusProductIds products day meal =
     (let productsRequired =
            getRequiredProductsForMeal_strict day meal products (isMealLeftoverValid day meal);
          productsDiscounted = filter (\<lambda>p. ID p \<in> set bonusProductIds) productsRequired
      in (meal, length productsDiscounted))"

definition matchesForDay_strict ::
  "(string \<Rightarrow> nat option) \<Rightarrow> Meal list \<Rightarrow> string list \<Rightarrow> Product list \<Rightarrow> WeekDay
     \<Rightarrow> (Meal \<times> nat) list" where
  "matchesForDay_strict getDay meals bonusProductIds products day =
     sort_key (\<lambda>(meal, score). - int score)
       (map (scoreMeal_strict bonusProductIds products day)
          (filter (fitsDay_strict getDay bonusProductIds products day) meals))"

definition matchMeals ::
  "(string \<Rightarrow> nat option) \<Rightarrow> Meal list \<Rightarrow> string list \<Rightarrow> Product list \<Rightarrow> WeekDay list
     \<Rightarrow> Meal option list" where
  "matchMeals getDay meals bonusProductIds products weekPlan =
     map (\<lambda>day.
        case matchesForDay_strict getDay meals bonusProductIds products day of
          [] \<Rightarrow> None
        | best # _ \<Rightarrow> Some (fst best)) weekPlan"

section \<open>Arrays in the store\<close>

text \<open>
  Two claims are about which array an operation writes. For them an array is a
  reference into a store of arrays: the store is the list of all arrays allocated so
  far, a reference is an index into it, and a new array is allocated at the end.
  The elements are values: the program never assigns to a property of a meal, a product
  or a day.
\<close>

type_synonym 'a store = "'a list list"

text \<open>
  \<^verbatim>\<open>sortWeekByPreparationTime\<close> (\<^verbatim>\<open>part_001\<close>, lines 54-57): \<^verbatim>\<open>week.sort\<close> sorts the
  array in place, ascending by \<^verbatim>\<open>MaxPreparationTime\<close> and stably; the function returns
  its argument.
\<close>

definition sortedByPreparationTime :: "WeekDay list \<Rightarrow> WeekDay list" where
  "sortedByPreparationTime week = sort_key MaxPreparationTime week"

definition sortWeekByPreparationTime :: "nat \<Rightarrow> WeekDay store \<Rightarrow> nat \<times> WeekDay store" where
  "sortWeekByPreparationTime week s = (week, s[week := sortedByPreparationTime (s ! week)])"

text \<open>
  \<^verbatim>\<open>getRequiredProductsForMeal\<close> on references: \<^verbatim>\<open>map\<close> (and, in the strict variant,
  \<^verbatim>\<open>filter\<close>) allocates the array it returns.
\<close>

definition getRequiredProductsForMeal_ref ::
  "WeekDay \<Rightarrow> Meal \<Rightarrow> nat \<Rightarrow> bool \<Rightarrow> Product store \<Rightarrow> nat \<times> Product store" where
  "getRequiredProductsForMeal_ref day meal ingredients options_isMealLeftoverValid s =
     (length s, s @ [getRequiredProductsForMeal day meal (s ! ingredients)
                 options_isMealLeftoverValid])"

definition getRequiredProductsForMeal_strict_ref ::
  "WeekDay \<Rightarrow> Meal \<Rightarrow> nat \<Rightarrow> bool \<Rightarrow> Product store \<Rightarrow> nat \<times> Product store" where
  "getRequiredProductsForMeal_strict_ref day meal products options_isMealLeftoverValid s =
     (length s,
      s @ [getRequiredProductsForMeal_strict day meal (s ! products)
                 options_isMealLeftoverValid])"

text \<open>
  The entry point (\<^verbatim>\<open>main\<close> in \<^verbatim>\<open>index.ts\<close>, lines 18-21), after the catalog has been
  fetched: it sorts the imported week array and ranks over the sorted array.
  \<^verbatim>\<open>FETCH_BONUS_DATA\<close> is \<^verbatim>\<open>false\<close>, so the discounted identifiers are the imported
  \<^verbatim>\<open>Bonus\<close>. The ranking it calls returns a plan keyed by day name (the entry point
  reads \<^verbatim>\<open>plan.Monday\<close> and so on), as \<^verbatim>\<open>rankMeals\<close> of \<^verbatim>\<open>part_001\<close> does;
  \<^verbatim>\<open>index.ts\<close> imports it under the name \<^verbatim>\<open>matchMeals\<close>, the entry point in
  \<^verbatim>\<open>part_003\<close>, which is otherwise the same, under \<^verbatim>\<open>rankMeals\<close>. The result is the
  store after the run and the plan.
\<close>

definition main ::
  "(string \<Rightarrow> nat option) \<Rightarrow> (nat \<Rightarrow> rat) \<Rightarrow> Meal list \<Rightarrow> Product list \<Rightarrow> string list
     \<Rightarrow> nat \<Rightarrow> WeekDay store \<Rightarrow> WeekDay store \<times> (error + Plan)" where
  "main getDay random meals products Bonus Week s =
     (let (week, s') = sortWeekByPreparationTime Week s;
          bonusProductIds = Bonus;
          plan = rankMeals getDay random meals bonusProductIds products (s' ! week)
      in (s', plan))"

section \<open>Predicates of the statements\<close>

text \<open>Two products agree on every field other than \<^verbatim>\<open>Quantity\<close>.\<close>

definition sameButQuantity :: "Product \<Rightarrow> Product \<Rightarrow> bool" where
  "sameButQuantity p q \<longleftrightarrow>
     Product.Meal q = Product.Meal p \<and> MaxShelfLifeInDays q = MaxShelfLifeInDays p \<and>
     IsBonusRequired q = IsBonusRequired p \<and> ID q = ID p \<and> URL q = URL p"

text \<open>
  The committed meals of a plan, in the order of its entries (the non-null values), and
  the uniqueness invariant: the plan has one entry per key and no two committed meals
  share a slug.
\<close>

fun committed :: "Plan \<Rightarrow> PlannedMeal list" where
  "committed [] = []"
| "committed ((day, None) # plan) = committed plan"
| "committed ((day, Some meal) # plan) = meal # committed plan"

definition slugUnique :: "Plan \<Rightarrow> bool" where
  "slugUnique plan \<longleftrightarrow> distinct (map fst plan) \<and> distinct (map Slug (committed plan))"

text \<open>The days of a plan with the slug committed to each.\<close>

definition planSlugs :: "Plan \<Rightarrow> (string \<times> string option) list" where
  "planSlugs plan = map (\<lambda>(day, meal). (day, map_option Slug meal)) plan"

section \<open>Example data\<close>

text \<open>
  A small catalog and week on which the theorems below are instantiated. The dates are
  those of a week in June 2025; \<open>weekdayOf\<close> gives their days of the week and is the
  \<open>getDay\<close> of the examples.
\<close>

definition pasta :: Meal where
  "pasta = \<lparr>Slug = ''pasta'', Meal = ''Pasta pesto'', PreparationTimeMinutes = 15,
     CanBeLeftovers = False, NumberOfPeople = 2\<rparr>"

definition curry :: Meal where
  "curry = \<lparr>Slug = ''curry'', Meal = ''Curry'', PreparationTimeMinutes = 40,
     CanBeLeftovers = True, NumberOfPeople = 4\<rparr>"

definition pesto :: Product where
  "pesto = \<lparr>Meal = ''pasta'', Quantity = Num 1, MaxShelfLifeInDays = Some 0,
     IsBonusRequired = False, ID = ''101'', URL = ''/producten/product/wi101''\<rparr>"

definition chicken :: Product where
  "chicken = \<lparr>Meal = ''curry'', Quantity = Num 3, MaxShelfLifeInDays = Some 2,
     IsBonusRequired = True, ID = ''202'', URL = ''/producten/product/wi202''\<rparr>"

definition monday :: WeekDay where
  "monday = \<lparr>Day = ''Monday'', Date = ''2025-06-02'', NumberOfPeople = 2,
     NumberOfPeopleLeftovers = 0, MaxPreparationTime = 60\<rparr>"

definition thursday :: WeekDay where
  "thursday = \<lparr>Day = ''Thursday'', Date = ''2025-06-05'', NumberOfPeople = 2,
     NumberOfPeopleLeftovers = 0, MaxPreparationTime = 20\<rparr>"

definition sunday :: WeekDay where
  "sunday = \<lparr>Day = ''Sunday'', Date = ''2025-06-08'', NumberOfPeople = 3,
     NumberOfPeopleLeftovers = 2, MaxPreparationTime = 90\<rparr>"

definition weekdayOf :: "string \<Rightarrow> nat option" where
  "weekdayOf date =
     (if date = ''2025-06-02'' then Some 1
      else if date = ''2025-06-05'' then Some 4
      else if date = ''2025-06-08'' then Some 0
      else None)"

text \<open>A random source that always returns 0.\<close>

definition alwaysZero :: "nat \<Rightarrow> rat" where
  "alwaysZero k = 0"

section \<open>Quantity scaling\<close>



lemma num_times_one [simp]: "num_times q (Num 1) = q"
  by (cases q) simp_all



section \<open>Discount requirement of the rich variant\<close>

text \<open>
  C7. The rich variant's \<^verbatim>\<open>isRequiredProductDiscountsValid\<close> returns true iff every
  ingredient with \<^verbatim>\<open>IsBonusRequired = true\<close> has its ID in the bonus list; in particular
  an ingredient list without any \<^verbatim>\<open>IsBonusRequired\<close> entry satisfies it for every bonus
  list.
\<close>

theorem isRequiredProductDiscountsValid_iff:
  "(isRequiredProductDiscountsValid ingredients bonusProductIds \<longleftrightarrow>
      (\<forall>p \<in> set ingredients. IsBonusRequired p \<longrightarrow> ID p \<in> set bonusProductIds))
   \<and> ((\<forall>p \<in> set ingredients. \<not> IsBonusRequired p) \<longrightarrow>
        isRequiredProductDiscountsValid ingredients bonusProductIds)"
  by (auto simp: isRequiredProductDiscountsValid_def list_all_iff)

theorem isRequiredProductDiscountsValid_iff_witness:
  "isRequiredProductDiscountsValid [pesto, chicken] [''202'']
   \<and> \<not> isRequiredProductDiscountsValid [pesto, chicken] [''101'']
   \<and> isRequiredProductDiscountsValid [pesto] []"
  using isRequiredProductDiscountsValid_iff [of "[pesto, chicken]" "[''202'']"]
    isRequiredProductDiscountsValid_iff [of "[pesto, chicken]" "[''101'']"]
    isRequiredProductDiscountsValid_iff [of "[pesto]" "[]"]
  by (simp add: pesto_def chicken_def)

section \<open>Frame of the quantity resolver\<close>

lemma getRequiredProductsForMeal_fields:
  "list_all2 sameButQuantity ingredients (getRequiredProductsForMeal d m ingredients f)"
  by (simp add: getRequiredProductsForMeal_def list_all2_map2 sameButQuantity_def
      list_all2_same Let_def)

lemma getRequiredProductsForMeal_strict_fields:
  "list_all2 sameButQuantity (filter (\<lambda>p. Product.Meal p = Slug m) products)
     (getRequiredProductsForMeal_strict d m products f)"
  by (simp add: getRequiredProductsForMeal_strict_def list_all2_map2 sameButQuantity_def
      list_all2_same Let_def)

text \<open>
  C8. \<^verbatim>\<open>getRequiredProductsForMeal\<close> changes only \<^verbatim>\<open>Quantity\<close> and leaves its input alone:
  the call allocates a new array and every array that existed before, the input among
  them, is unchanged; the new array has one product per input product (per product of
  the meal in the strict variant), in order, which agrees with it on every field other
  than \<^verbatim>\<open>Quantity\<close>; a second call with the same arguments, made after the first,
  returns an array with the same contents.
\<close>

theorem getRequiredProductsForMeal_frame:
  "ingredients < length s \<Longrightarrow>
   (case getRequiredProductsForMeal_ref d m ingredients f s of (r, s') \<Rightarrow>
      r = length s \<and> length s' = Suc (length s) \<and> take (length s) s' = s
      \<and> s' ! ingredients = s ! ingredients
      \<and> list_all2 sameButQuantity (s ! ingredients) (s' ! r)
      \<and> (case getRequiredProductsForMeal_ref d m ingredients f s' of (r2, s'') \<Rightarrow>
            s'' ! r2 = s' ! r \<and> take (length s') s'' = s'))
   \<and> (case getRequiredProductsForMeal_strict_ref d m ingredients f s of (r, s') \<Rightarrow>
      r = length s \<and> length s' = Suc (length s) \<and> take (length s) s' = s
      \<and> s' ! ingredients = s ! ingredients
      \<and> list_all2 sameButQuantity
           (filter (\<lambda>p. Product.Meal p = Slug m) (s ! ingredients)) (s' ! r)
      \<and> (case getRequiredProductsForMeal_strict_ref d m ingredients f s' of (r2, s'') \<Rightarrow>
            s'' ! r2 = s' ! r \<and> take (length s') s'' = s'))"
  by (simp add: getRequiredProductsForMeal_ref_def getRequiredProductsForMeal_strict_ref_def
      nth_append getRequiredProductsForMeal_fields getRequiredProductsForMeal_strict_fields)

theorem getRequiredProductsForMeal_frame_witness:
  "(0::nat) < length [[pesto, chicken]]
   \<and> getRequiredProductsForMeal_ref sunday pasta 0 True [[pesto, chicken]] =
       (1, [[pesto, chicken], [pesto\<lparr>Quantity := Num 3\<rparr>, chicken\<lparr>Quantity := Num 9\<rparr>]])
   \<and> getRequiredProductsForMeal_strict_ref sunday pasta 0 True [[pesto, chicken]] =
       (1, [[pesto, chicken], [pesto\<lparr>Quantity := Num 3\<rparr>]])
   \<and> sameButQuantity pesto (pesto\<lparr>Quantity := Num 3\<rparr>)"
  using getRequiredProductsForMeal_frame [of 0 "[[pesto, chicken]]" sunday pasta True]
  by (simp add: getRequiredProductsForMeal_ref_def getRequiredProductsForMeal_strict_ref_def
      getRequiredProductsForMeal_def getRequiredProductsForMeal_strict_def Math_ceil_div_def
      sameButQuantity_def pasta_def sunday_def pesto_def chicken_def)

section \<open>Shelf life\<close>





section \<open>Discount requirement of the strict variant\<close>

text \<open>
  The strict \<^verbatim>\<open>isRequiredProductDiscountsValid\<close> is true when some product that requires
  a discount has none, and \<^verbatim>\<open>matchMeals\<close> keeps the meals for which it is true. So every
  meal that \<^verbatim>\<open>matchMeals\<close> commits has a bonus-required product outside the discount
  list.
\<close>

lemma matchMeals_commits_only_undiscounted:
  assumes "Some meal \<in> set (matchMeals getDay meals bonusProductIds products weekPlan)"
  shows "\<exists>p \<in> set products.
           Product.Meal p = Slug meal \<and> IsBonusRequired p \<and> ID p \<notin> set bonusProductIds"
proof -
  from assms obtain day best rest where
    m: "matchesForDay_strict getDay meals bonusProductIds products day = best # rest"
    and meal: "meal = fst best"
    by (auto simp: matchMeals_def split: list.splits)
  have "best \<in> set (matchesForDay_strict getDay meals bonusProductIds products day)"
    using m by simp
  then have "fst best \<in> set (filter (fitsDay_strict getDay bonusProductIds products day) meals)"
    by (auto simp: matchesForDay_strict_def scoreMeal_strict_def Let_def)
  with meal have "fitsDay_strict getDay bonusProductIds products day meal" by simp
  then have "isRequiredProductDiscountsValid_strict
      (getRequiredProductsForMeal_strict day meal products (isMealLeftoverValid day meal))
      bonusProductIds"
    unfolding fitsDay_strict_def Let_def by blast
  then show ?thesis
    by (auto simp: isRequiredProductDiscountsValid_strict_def list_ex_iff
        getRequiredProductsForMeal_strict_def Let_def)
qed

text \<open>
  C1 is not what the strict variant does. With an empty discount list, \<^verbatim>\<open>matchMeals\<close>
  commits the curry, whose chicken requires a discount and has none; with the chicken
  discounted it commits nothing.
\<close>

theorem matchMeals_commits_undiscounted:
  "matchMeals weekdayOf [pasta, curry] [] [pesto, chicken] [monday] = [Some curry]
   \<and> IsBonusRequired chicken \<and> Product.Meal chicken = Slug curry \<and> ID chicken \<notin> set []
   \<and> matchMeals weekdayOf [pasta, curry] [''202''] [pesto, chicken] [monday] = [None]"
  by (simp add: matchMeals_def matchesForDay_strict_def fitsDay_strict_def scoreMeal_strict_def
      getRequiredProductsForMeal_strict_def isPreparationTimeValid_def isMealLeftoverValid_def
      isRequiredProductDiscountsValid_strict_def isProductShelfLifeValid_strict_def
      num_ge_def dayInWeek_def Math_ceil_div_def
      weekdayOf_def pasta_def curry_def pesto_def chicken_def monday_def)

section \<open>Unfolding the model on examples\<close>

lemmas rankMeals_defs = rankMeals_def rankDay_def matchesForDay_def survivors_def
  withIngredients_def fitsDay_def scoreMeal_def getRequiredProductsForMeal_def
  isMealLeftoverValid_def hasIngredients_def isNotInPlan_def isPreparationTimeValid_def
  isRequiredProductDiscountsValid_def isProductShelfLifeValid_def falsy_def num_ge_def
  dayInWeek_def Math_ceil_div_def

lemmas example_defs = pasta_def curry_def pesto_def chicken_def monday_def thursday_def
  sunday_def weekdayOf_def alwaysZero_def

section \<open>The loop body\<close>

lemma sorted_by_score_hd:
  assumes "sort_key (\<lambda>(meal, score). - int score) xs = best # rest"
  shows "best \<in> set xs" and "\<forall>x \<in> set xs. snd x \<le> snd best"
proof -
  let ?f = "\<lambda>(meal :: 'a, score). - int score"
  have "set (best # rest) = set xs"
    using assms by (metis set_sort)
  then show "best \<in> set xs" by auto
  have "sorted (map ?f (best # rest))"
    using assms by (metis sorted_sort_key)
  then have "\<forall>x \<in> set rest. ?f best \<le> ?f x" by simp
  then have "\<forall>x \<in> set (best # rest). snd x \<le> snd best"
    by (auto simp: case_prod_beta)
  then show "\<forall>x \<in> set xs. snd x \<le> snd best"
    using \<open>set (best # rest) = set xs\<close> by blast
qed

lemma randIndex_in_range:
  fixes r :: rat
  assumes "0 \<le> r" "r < 1" "0 < n"
  shows "0 \<le> \<lfloor>r * of_nat n\<rfloor>" and "\<lfloor>r * of_nat n\<rfloor> < int n"
proof -
  show "0 \<le> \<lfloor>r * of_nat n\<rfloor>" using assms by simp
  have "r * of_nat n < of_nat n" using assms by simp
  then have "r * of_nat n < of_int (int n)" by simp
  then show "\<lfloor>r * of_nat n\<rfloor> < int n" by (simp only: floor_less_iff)
qed

text \<open>What one iteration can do to the state.\<close>

lemma rankDay_cases:
  assumes "rankDay getDay random meals bonusProductIds products day (plan, calls) = Inr st"
  shows "(matchesForDay getDay meals bonusProductIds products plan day = []
            \<and> st = (AList.update (Day day) None plan, calls))
         \<or> (\<exists>x \<in> set (matchesForDay getDay meals bonusProductIds products plan day).
              \<exists>calls'. st = (AList.update (Day day) (Some (fst x)) plan, calls'))"
proof (cases "matchesForDay getDay meals bonusProductIds products plan day")
  case Nil
  with assms show ?thesis by (simp add: rankDay_def)
next
  case (Cons best rest)
  let ?ms = "matchesForDay getDay meals bonusProductIds products plan day"
  show ?thesis
  proof (cases "snd best = 0")
    case False
    with assms Cons have "st = (AList.update (Day day) (Some (fst best)) plan, calls)"
      by (simp add: rankDay_def)
    moreover have "best \<in> set ?ms" using Cons by simp
    ultimately show ?thesis by blast
  next
    case True
    define i where "i = \<lfloor>random calls * of_nat (length ?ms)\<rfloor>"
    have body: "rankDay getDay random meals bonusProductIds products day (plan, calls) =
      (if 0 \<le> i \<and> i < int (length ?ms)
       then Inr (AList.update (Day day) (Some (fst (?ms ! nat i))) plan, Suc calls)
       else Inl TypeError)"
      using Cons True by (simp add: rankDay_def Let_def i_def del: of_nat_Suc)
    with assms have range: "0 \<le> i" "i < int (length ?ms)"
      and st: "st = (AList.update (Day day) (Some (fst (?ms ! nat i))) plan, Suc calls)"
      by (simp_all split: if_splits)
    from range have "nat i < length ?ms" by linarith
    then have "?ms ! nat i \<in> set ?ms" by (rule nth_mem)
    with st show ?thesis by blast
  qed
qed

lemma rankDay_total:
  assumes "0 \<le> random calls" "random calls < 1"
  shows "\<exists>st. rankDay getDay random meals bonusProductIds products day (plan, calls) = Inr st"
proof (cases "matchesForDay getDay meals bonusProductIds products plan day")
  case Nil
  then show ?thesis by (simp add: rankDay_def)
next
  case (Cons best rest)
  have "0 < length (best # rest)" by simp
  from randIndex_in_range [OF assms this] Cons show ?thesis
    by (simp add: rankDay_def Let_def del: of_nat_Suc length_Cons)
qed


lemma matchesForDay_survivor:
  assumes "x \<in> set (matchesForDay getDay meals bonusProductIds products plan day)"
  shows "\<exists>c \<in> set (survivors getDay meals bonusProductIds products plan day).
           x = scoreMeal bonusProductIds day c"
  using assms by (auto simp: matchesForDay_def)

lemma survivors_fit:
  assumes "c \<in> set (survivors getDay meals bonusProductIds products plan day)"
  shows "fitsDay getDay bonusProductIds plan day c"
  using assms by (simp add: survivors_def)

lemma Slug_scoreMeal [simp]: "Slug (fst (scoreMeal bonusProductIds day c)) = Slug (fst c)"
  by (cases c) (simp add: scoreMeal_def Let_def)

lemma isNotInPlan_iff: "isNotInPlan meal plan \<longleftrightarrow> Slug meal \<notin> Slug ` set (committed plan)"
proof (induction plan rule: committed.induct)
  case 1
  show ?case by (simp add: isNotInPlan_def)
next
  case (2 day plan)
  then show ?case by (simp add: isNotInPlan_def)
next
  case (3 day m plan)
  then show ?case by (auto simp: isNotInPlan_def)
qed

lemma matches_not_in_plan:
  assumes "x \<in> set (matchesForDay getDay meals bonusProductIds products plan day)"
  shows "Slug (fst x) \<notin> Slug ` set (committed plan)"
proof -
  from matchesForDay_survivor [OF assms] obtain c
    where c: "c \<in> set (survivors getDay meals bonusProductIds products plan day)"
      and x: "x = scoreMeal bonusProductIds day c" by blast
  from survivors_fit [OF c] have "isNotInPlan (fst c) plan"
    by (cases c) (simp add: fitsDay_def Let_def)
  with x show ?thesis by (simp add: isNotInPlan_iff)
qed

lemma committed_Cons:
  "committed ((k, v) # plan) = (case v of None \<Rightarrow> committed plan | Some m \<Rightarrow> m # committed plan)"
  by (cases v) simp_all

lemma committed_mem: "(k, Some y) \<in> set plan \<Longrightarrow> y \<in> set (committed plan)"
  by (induction plan rule: committed.induct) auto

lemma committed_update_subset:
  "set (committed (AList.update k v plan)) \<subseteq> set (committed plan) \<union> set_option v"
  by (induction plan rule: committed.induct) (auto simp: committed_Cons split: option.splits)

lemma committed_update_distinct:
  assumes "distinct (map Slug (committed plan))"
    and "\<forall>m. v = Some m \<longrightarrow> Slug m \<notin> Slug ` set (committed plan)"
  shows "distinct (map Slug (committed (AList.update k v plan)))"
  using assms
proof (induction plan rule: committed.induct)
  case 1
  then show ?case by (cases v) simp_all
next
  case (2 day plan)
  then show ?case by (cases v) simp_all
next
  case (3 day m plan)
  show ?case
  proof (cases "day = k")
    case True
    with 3 show ?thesis by (cases v) auto
  next
    case False
    have "Slug m \<notin> Slug ` set (committed (AList.update k v plan))"
      using committed_update_subset [of k v plan] "3.prems" by (cases v) auto
    with False 3 show ?thesis by auto
  qed
qed

lemma rankDay_slugUnique:
  assumes "rankDay getDay random meals bonusProductIds products day (plan, calls) = Inr (plan', calls')"
    and "slugUnique plan"
  shows "slugUnique plan'"
proof -
  from rankDay_cases [OF assms(1)] consider
      "plan' = AList.update (Day day) None plan"
    | x where "x \<in> set (matchesForDay getDay meals bonusProductIds products plan day)"
        "plan' = AList.update (Day day) (Some (fst x)) plan"
    by auto
  then show ?thesis
  proof cases
    case 1
    with assms(2) show ?thesis
      by (simp add: slugUnique_def distinct_update committed_update_distinct)
  next
    case 2
    from matches_not_in_plan [OF 2(1)] assms(2) 2(2) show ?thesis
      by (simp add: slugUnique_def distinct_update committed_update_distinct)
  qed
qed

lemma rankLoop_append:
  "rankLoop getDay random meals bonusProductIds products (days @ days') st =
     (case rankLoop getDay random meals bonusProductIds products days st of
        Inl e \<Rightarrow> Inl e
      | Inr st' \<Rightarrow> rankLoop getDay random meals bonusProductIds products days' st')"
  by (induction days arbitrary: st) (simp_all split: sum.splits)

lemma rankLoop_total:
  assumes "\<forall>k. 0 \<le> random k \<and> random k < 1"
  shows "\<exists>st'. rankLoop getDay random meals bonusProductIds products days st = Inr st'"
proof (induction days arbitrary: st)
  case Nil
  show ?case by simp
next
  case (Cons day days)
  obtain plan calls where st: "st = (plan, calls)" by (cases st)
  from assms have "0 \<le> random calls" "random calls < 1" by simp_all
  from rankDay_total [of random calls, OF this] obtain st1
    where "rankDay getDay random meals bonusProductIds products day (plan, calls) = Inr st1"
    by blast
  with Cons.IH [of st1] st show ?case by simp
qed

lemma rankLoop_slugUnique:
  assumes "rankLoop getDay random meals bonusProductIds products days (plan, calls) = Inr (plan', calls')"
    and "slugUnique plan"
  shows "slugUnique plan'"
  using assms
proof (induction days arbitrary: plan calls)
  case Nil
  then show ?case by simp
next
  case (Cons day days)
  from Cons.prems(1) obtain plan1 calls1
    where step: "rankDay getDay random meals bonusProductIds products day (plan, calls) = Inr (plan1, calls1)"
      and rest: "rankLoop getDay random meals bonusProductIds products days (plan1, calls1) = Inr (plan', calls')"
    by (auto split: sum.splits)
  from rankDay_slugUnique [OF step Cons.prems(2)] have "slugUnique plan1" .
  from Cons.IH [OF rest this] show ?case .
qed

lemma slugUnique_entries:
  assumes "slugUnique plan" "d \<noteq> d'"
    and "map_of plan d = Some (Some m)" "map_of plan d' = Some (Some m')"
  shows "Slug m \<noteq> Slug m'"
proof -
  have "d = d'"
    if "distinct (map fst plan)" "distinct (map Slug (committed plan))"
      "(d, Some m) \<in> set plan" "(d', Some m') \<in> set plan" "Slug m = Slug m'"
    for d d' m m'
    using that
  proof (induction plan rule: committed.induct)
    case 1
    then show ?case by simp
  next
    case (2 day plan)
    then show ?case by auto
  next
    case (3 day x plan)
    from "3.prems"(3) consider "d = day" "m = x" | "(d, Some m) \<in> set plan" by auto
    then show ?case
    proof cases
      case 1
      from "3.prems"(4) consider "d' = day" | "(d', Some m') \<in> set plan" by auto
      then show ?thesis
      proof cases
        case 1
        with \<open>d = day\<close> show ?thesis by simp
      next
        case 2
        from committed_mem [OF 2] have "Slug m' \<in> Slug ` set (committed plan)" by simp
        with "3.prems"(2,5) \<open>m = x\<close> show ?thesis by simp
      qed
    next
      case 2
      from "3.prems"(4) consider "d' = day" "m' = x" | "(d', Some m') \<in> set plan" by auto
      then show ?thesis
      proof cases
        case 1
        from committed_mem [OF 2] have "Slug m \<in> Slug ` set (committed plan)" by simp
        with "3.prems"(2,5) \<open>m' = x\<close> show ?thesis by simp
      next
        case 2
        with "3.IH" "3.prems" \<open>(d, Some m) \<in> set plan\<close> show ?thesis by simp
      qed
    qed
  qed
  with assms show ?thesis
    by (auto simp: slugUnique_def dest!: map_of_SomeD)
qed

lemma rankDay_none:
  assumes "survivors getDay meals bonusProductIds products plan day = []"
  shows "rankDay getDay random meals bonusProductIds products day (plan, calls) =
           Inr (AList.update (Day day) None plan, calls)"
  using assms by (simp add: rankDay_def matchesForDay_def)

lemma matchesForDay_best:
  assumes "survivors getDay meals bonusProductIds products plan day \<noteq> []"
  defines "cs \<equiv> map (scoreMeal bonusProductIds day)
                   (survivors getDay meals bonusProductIds products plan day)"
  obtains best rest where
    "matchesForDay getDay meals bonusProductIds products plan day = best # rest"
    "best \<in> set cs" "snd best = Max (snd ` set cs)"
proof -
  have "length (matchesForDay getDay meals bonusProductIds products plan day) = length cs"
    by (simp add: matchesForDay_def cs_def)
  with assms(1) obtain best rest
    where m: "matchesForDay getDay meals bonusProductIds products plan day = best # rest"
    by (cases "matchesForDay getDay meals bonusProductIds products plan day")
       (simp_all add: cs_def)
  then have sorted: "sort_key (\<lambda>(meal, score). - int score) cs = best # rest"
    by (simp add: matchesForDay_def cs_def)
  from sorted_by_score_hd [OF sorted]
  have mem: "best \<in> set cs" and ge: "\<forall>x \<in> set cs. snd x \<le> snd best" by simp_all
  have "Max (snd ` set cs) = snd best"
  proof (rule Max_eqI)
    show "finite (snd ` set cs)" by simp
    show "y \<le> snd best" if "y \<in> snd ` set cs" for y using that ge by auto
    show "snd best \<in> snd ` set cs" using mem by simp
  qed
  with m mem that show thesis by simp
qed

lemma floor_index:
  assumes "i < n"
  shows "\<lfloor>(rat_of_nat i / rat_of_nat n) * rat_of_nat n\<rfloor> = int i"
    and "0 \<le> rat_of_nat i / rat_of_nat n" and "rat_of_nat i / rat_of_nat n < 1"
  using assms by simp_all

section \<open>Slug uniqueness\<close>

text \<open>
  C3. With a random source that keeps to \<open>0 \<le> random k < 1\<close>, \<^verbatim>\<open>rankMeals\<close> returns a plan
  in which no slug appears in two different non-null entries; and after every day of the
  loop (the state reached on the first \<open>n\<close> days, from which the run continues with the
  remaining days) the accumulated plan satisfies the same invariant.
\<close>

theorem rankMeals_slug_unique:
  assumes "\<forall>k. 0 \<le> random k \<and> random k < 1"
  shows "(\<exists>plan. rankMeals getDay random meals bonusProductIds products weekPlan = Inr plan
            \<and> slugUnique plan
            \<and> (\<forall>d d' m m'. d \<noteq> d' \<and> map_of plan d = Some (Some m)
                   \<and> map_of plan d' = Some (Some m') \<longrightarrow> Slug m \<noteq> Slug m'))
       \<and> (\<forall>n. \<exists>plan calls.
             rankLoop getDay random meals bonusProductIds products (take n weekPlan) ([], 0)
               = Inr (plan, calls)
             \<and> rankLoop getDay random meals bonusProductIds products weekPlan ([], 0)
               = rankLoop getDay random meals bonusProductIds products (drop n weekPlan)
                   (plan, calls)
             \<and> slugUnique plan)"
proof -
  have init: "slugUnique []" by (simp add: slugUnique_def)
  have prefix: "\<exists>plan calls.
      rankLoop getDay random meals bonusProductIds products (take n weekPlan) ([], 0)
        = Inr (plan, calls)
      \<and> rankLoop getDay random meals bonusProductIds products weekPlan ([], 0)
        = rankLoop getDay random meals bonusProductIds products (drop n weekPlan) (plan, calls)
      \<and> slugUnique plan" for n
  proof -
    from rankLoop_total [OF assms] obtain plan calls
      where run: "rankLoop getDay random meals bonusProductIds products (take n weekPlan) ([], 0)
        = Inr (plan, calls)" by fastforce
    have "rankLoop getDay random meals bonusProductIds products (take n weekPlan @ drop n weekPlan) ([], 0)
        = rankLoop getDay random meals bonusProductIds products (drop n weekPlan) (plan, calls)"
      by (simp only: rankLoop_append run sum.case)
    moreover from rankLoop_slugUnique [OF run init] have "slugUnique plan" .
    ultimately show ?thesis using run by auto
  qed
  from prefix [of "length weekPlan"] obtain plan calls
    where "rankLoop getDay random meals bonusProductIds products weekPlan ([], 0) = Inr (plan, calls)"
      and u: "slugUnique plan" by auto
  then have "rankMeals getDay random meals bonusProductIds products weekPlan = Inr plan"
    by (simp add: rankMeals_def)
  with u slugUnique_entries [OF u] prefix show ?thesis by blast
qed


theorem rankMeals_slug_unique_witness:
  "(\<forall>k. 0 \<le> alwaysZero k \<and> alwaysZero k < 1)
   \<and> (\<exists>plan. rankMeals weekdayOf alwaysZero [pasta, curry] [''202''] [pesto, chicken]
                 [monday, thursday] = Inr plan
        \<and> planSlugs plan = [(''Monday'', Some ''curry''), (''Thursday'', Some ''pasta'')]
        \<and> slugUnique plan)"
proof -
  have range: "\<forall>k. 0 \<le> alwaysZero k \<and> alwaysZero k < 1"
    by (simp add: alwaysZero_def)
  from rankMeals_slug_unique [OF range, of weekdayOf "[pasta, curry]" "[''202'']"
      "[pesto, chicken]" "[monday, thursday]"]
  obtain plan where run: "rankMeals weekdayOf alwaysZero [pasta, curry] [''202'']
      [pesto, chicken] [monday, thursday] = Inr plan" and u: "slugUnique plan"
    by blast
  have "map_sum id planSlugs (rankMeals weekdayOf alwaysZero [pasta, curry] [''202'']
      [pesto, chicken] [monday, thursday])
    = Inr [(''Monday'', Some ''curry''), (''Thursday'', Some ''pasta'')]"
    by (simp add: rankMeals_defs example_defs planSlugs_def Let_def)
  with run have "planSlugs plan = [(''Monday'', Some ''curry''), (''Thursday'', Some ''pasta'')]"
    by simp
  with range run u show ?thesis by blast
qed

section \<open>Selection\<close>

text \<open>
  C6. One iteration of \<^verbatim>\<open>rankMeals\<close>, for a day and the plan so far, where \<open>cs\<close> are the
  scored survivors of the filter: if there are none, the entry of the day is \<^verbatim>\<open>null\<close>;
  if the highest score is positive, the committed meal is a survivor with that score;
  if the highest score is 0 (and the random source keeps to its range), the committed
  meal is one of the survivors, and every survivor is committed for some value of the
  random source.
\<close>

theorem rankDay_selection:
  "(let cs = map (scoreMeal bonusProductIds day)
               (survivors getDay meals bonusProductIds products plan day)
    in (cs = [] \<longrightarrow>
          rankDay getDay random meals bonusProductIds products day (plan, calls) =
            Inr (AList.update (Day day) None plan, calls))
     \<and> (cs \<noteq> [] \<and> 0 < Max (snd ` set cs) \<longrightarrow>
          (\<exists>x \<in> set cs. snd x = Max (snd ` set cs) \<and>
             rankDay getDay random meals bonusProductIds products day (plan, calls) =
               Inr (AList.update (Day day) (Some (fst x)) plan, calls)))
     \<and> (cs \<noteq> [] \<and> Max (snd ` set cs) = 0 \<and> 0 \<le> random calls \<and> random calls < 1 \<longrightarrow>
          (\<exists>x \<in> set cs.
             rankDay getDay random meals bonusProductIds products day (plan, calls) =
               Inr (AList.update (Day day) (Some (fst x)) plan, Suc calls)))
     \<and> (cs \<noteq> [] \<and> Max (snd ` set cs) = 0 \<longrightarrow>
          (\<forall>x \<in> set cs. \<exists>r. 0 \<le> r \<and> r < 1 \<and>
             rankDay getDay (\<lambda>k. r) meals bonusProductIds products day (plan, calls) =
               Inr (AList.update (Day day) (Some (fst x)) plan, Suc calls))))"
proof -
  define cs where "cs = map (scoreMeal bonusProductIds day)
    (survivors getDay meals bonusProductIds products plan day)"
  let ?ms = "matchesForDay getDay meals bonusProductIds products plan day"
  have set_ms: "set ?ms = set cs" and len_ms: "length ?ms = length cs"
    by (simp_all add: matchesForDay_def cs_def)
  have none: "rankDay getDay random meals bonusProductIds products day (plan, calls) =
      Inr (AList.update (Day day) None plan, calls)" if "cs = []"
    using that by (simp add: rankDay_none cs_def)
  have top: "\<exists>x \<in> set cs. snd x = Max (snd ` set cs) \<and>
      rankDay getDay random meals bonusProductIds products day (plan, calls) =
        Inr (AList.update (Day day) (Some (fst x)) plan, calls)"
    if "cs \<noteq> []" "0 < Max (snd ` set cs)"
  proof -
    from that(1) have "survivors getDay meals bonusProductIds products plan day \<noteq> []"
      by (simp add: cs_def)
    from matchesForDay_best [OF this] obtain best rest
      where m: "?ms = best # rest" and mem: "best \<in> set cs"
        and mx: "snd best = Max (snd ` set cs)"
      unfolding cs_def by blast
    from m mx that(2)
    have "rankDay getDay random meals bonusProductIds products day (plan, calls) =
        Inr (AList.update (Day day) (Some (fst best)) plan, calls)"
      by (simp add: rankDay_def)
    with mem mx show ?thesis by blast
  qed
  have zero_body: "rankDay getDay rnd meals bonusProductIds products day (plan, calls) =
      (if 0 \<le> \<lfloor>rnd calls * of_nat (length ?ms)\<rfloor> \<and> \<lfloor>rnd calls * of_nat (length ?ms)\<rfloor> < int (length ?ms)
       then Inr (AList.update (Day day)
                   (Some (fst (?ms ! nat \<lfloor>rnd calls * of_nat (length ?ms)\<rfloor>))) plan, Suc calls)
       else Inl TypeError)"
    if "cs \<noteq> []" "Max (snd ` set cs) = 0" for rnd
  proof -
    from that(1) have "survivors getDay meals bonusProductIds products plan day \<noteq> []"
      by (simp add: cs_def)
    from matchesForDay_best [OF this] obtain best rest
      where m: "?ms = best # rest" and mx: "snd best = Max (snd ` set cs)"
      unfolding cs_def by blast
    with that(2) show ?thesis
      by (simp add: rankDay_def Let_def del: of_nat_Suc)
  qed
  have rnd: "\<exists>x \<in> set cs.
      rankDay getDay random meals bonusProductIds products day (plan, calls) =
        Inr (AList.update (Day day) (Some (fst x)) plan, Suc calls)"
    if "cs \<noteq> []" "Max (snd ` set cs) = 0" "0 \<le> random calls" "random calls < 1"
  proof -
    have pos: "0 < length ?ms" using that(1) len_ms by simp
    from randIndex_in_range [OF that(3,4) pos]
    have r: "0 \<le> \<lfloor>random calls * of_nat (length ?ms)\<rfloor>"
      "\<lfloor>random calls * of_nat (length ?ms)\<rfloor> < int (length ?ms)" by simp_all
    then have "nat \<lfloor>random calls * of_nat (length ?ms)\<rfloor> < length ?ms" by linarith
    then have "?ms ! nat \<lfloor>random calls * of_nat (length ?ms)\<rfloor> \<in> set cs"
      using set_ms nth_mem by blast
    with zero_body [OF that(1,2), of random] r show ?thesis by auto
  qed
  have any: "\<exists>r. 0 \<le> r \<and> r < 1 \<and>
      rankDay getDay (\<lambda>k. r) meals bonusProductIds products day (plan, calls) =
        Inr (AList.update (Day day) (Some (fst x)) plan, Suc calls)"
    if "cs \<noteq> []" "Max (snd ` set cs) = 0" "x \<in> set cs" for x
  proof -
    from that(3) set_ms have "x \<in> set ?ms" by simp
    then obtain i where i: "i < length ?ms" "?ms ! i = x"
      unfolding in_set_conv_nth by blast
    let ?r = "rat_of_nat i / rat_of_nat (length ?ms)"
    from floor_index [OF i(1)] zero_body [OF that(1,2), of "\<lambda>k. ?r"] i
    have "rankDay getDay (\<lambda>k. ?r) meals bonusProductIds products day (plan, calls) =
        Inr (AList.update (Day day) (Some (fst x)) plan, Suc calls)"
      by simp
    with floor_index(2,3) [OF i(1)] show ?thesis by blast
  qed
  from none top rnd any show ?thesis
    unfolding Let_def cs_def [symmetric] by blast
qed

theorem rankDay_selection_witness:
  "rankDay weekdayOf alwaysZero [curry] [] [pesto, chicken] monday ([], 0) =
     Inr ([(''Monday'', None)], 0)
   \<and> rankDay weekdayOf alwaysZero [pasta, curry] [''202''] [pesto, chicken] monday ([], 0) =
     Inr ([(''Monday'', Some (fst (scoreMeal [''202''] monday (curry, [chicken]))))], 0)
   \<and> snd (scoreMeal [''202''] monday (curry, [chicken])) = 1
   \<and> rankDay weekdayOf alwaysZero [pasta, curry] [] [pesto, chicken] monday ([], 0) =
     Inr ([(''Monday'', Some (fst (scoreMeal [] monday (pasta, [pesto]))))], 1)"
  using rankDay_selection [of "[]" monday weekdayOf "[curry]" "[pesto, chicken]" "[]" alwaysZero 0]
    rankDay_selection [of "[''202'']" monday weekdayOf "[pasta, curry]" "[pesto, chicken]" "[]" alwaysZero 0]
    rankDay_selection [of "[]" monday weekdayOf "[pasta, curry]" "[pesto, chicken]" "[]" alwaysZero 0]
  by (simp add: rankMeals_defs example_defs Let_def)

section \<open>Empty catalog, empty discount list\<close>

lemma survivors_no_products:
  "survivors getDay meals bonusProductIds [] plan day = []"
  by (auto simp: survivors_def withIngredients_def fitsDay_def hasIngredients_def
      filter_empty_conv)

lemma rankLoop_no_products:
  "rankLoop getDay random meals bonusProductIds [] days (plan, calls) =
     Inr (fold (\<lambda>day. AList.update (Day day) None) days plan, calls)"
  by (induction days arbitrary: plan) (simp_all add: rankDay_none survivors_no_products)

lemma update_None_values:
  assumes "\<forall>e \<in> set plan. snd e = None"
  shows "\<forall>e \<in> set (AList.update k None plan). snd e = None"
  using assms by (induction plan) auto

lemma fold_update_None:
  assumes "\<forall>e \<in> set plan. snd e = None"
  shows "(\<forall>e \<in> set (fold (\<lambda>day. AList.update (Day day) None) days plan). snd e = None)
       \<and> fst ` set (fold (\<lambda>day. AList.update (Day day) None) days plan) =
           fst ` set plan \<union> Day ` set days"
  using assms
proof (induction days arbitrary: plan)
  case Nil
  then show ?case by simp
next
  case (Cons day days)
  from update_None_values [OF Cons.prems]
  have "\<forall>e \<in> set (AList.update (Day day) None plan). snd e = None" .
  from Cons.IH [OF this] show ?case
    by (auto simp: dom_update)
qed

text \<open>
  C2, amended. With a random source that keeps to its range, \<^verbatim>\<open>rankMeals\<close> does not throw
  when the discount list or the catalog is empty (nor otherwise). When the catalog is
  empty the plan has an entry for every day of the week and every entry is \<^verbatim>\<open>null\<close>.
  An empty discount list alone does not empty the plan.
\<close>

theorem rankMeals_empty_inputs:
  assumes "\<forall>k. 0 \<le> random k \<and> random k < 1"
  shows "(bonusProductIds = [] \<or> products = [] \<longrightarrow>
            (\<exists>plan. rankMeals getDay random meals bonusProductIds products weekPlan = Inr plan))
       \<and> (products = [] \<longrightarrow>
            (\<exists>plan. rankMeals getDay random meals bonusProductIds products weekPlan = Inr plan
               \<and> fst ` set plan = Day ` set weekPlan
               \<and> (\<forall>entry \<in> set plan. snd entry = None)))"
proof -
  from rankLoop_total [OF assms] obtain st
    where "rankLoop getDay random meals bonusProductIds products weekPlan ([], 0) = Inr st"
    by blast
  then have total: "\<exists>plan. rankMeals getDay random meals bonusProductIds products weekPlan = Inr plan"
    by (cases st) (simp add: rankMeals_def)
  have "rankMeals getDay random meals bonusProductIds [] weekPlan =
      Inr (fold (\<lambda>day. AList.update (Day day) None) weekPlan [])"
    by (simp add: rankMeals_def rankLoop_no_products)
  moreover have "(\<forall>e \<in> set (fold (\<lambda>day. AList.update (Day day) None) weekPlan ([] :: Plan)).
         snd e = None)
       \<and> fst ` set (fold (\<lambda>day. AList.update (Day day) None) weekPlan ([] :: Plan)) =
           Day ` set weekPlan"
    using fold_update_None [of "[] :: Plan" weekPlan] by simp
  ultimately show ?thesis using total by auto
qed

theorem rankMeals_empty_inputs_witness:
  "(\<forall>k. 0 \<le> alwaysZero k \<and> alwaysZero k < 1)
   \<and> rankMeals weekdayOf alwaysZero [pasta, curry] [''202''] [] [monday, thursday] =
       Inr [(''Monday'', None), (''Thursday'', None)]
   \<and> (\<exists>plan. rankMeals weekdayOf alwaysZero [pasta, curry] [] [pesto, chicken]
                 [monday, thursday] = Inr plan)"
proof -
  have range: "\<forall>k. 0 \<le> alwaysZero k \<and> alwaysZero k < 1"
    by (simp add: alwaysZero_def)
  have "rankMeals weekdayOf alwaysZero [pasta, curry] [''202''] [] [monday, thursday] =
       Inr [(''Monday'', None), (''Thursday'', None)]"
    by (simp add: rankMeals_defs example_defs Let_def)
  with range rankMeals_empty_inputs [OF range, where bonusProductIds = "[]"
      and products = "[pesto, chicken]" and getDay = weekdayOf and meals = "[pasta, curry]"
      and weekPlan = "[monday, thursday]"]
  show ?thesis by simp
qed

text \<open>
  C2 as stated fails for an empty discount list: the pasta needs no discount, survives
  with score 0 and is committed.
\<close>

theorem rankMeals_empty_discounts_counterexample:
  "rankMeals weekdayOf alwaysZero [pasta, curry] [] [pesto, chicken] [monday] =
     Inr [(''Monday'', Some (fst (scoreMeal [] monday (pasta, [pesto]))))]"
  by (simp add: rankMeals_defs example_defs Let_def)

section \<open>Order of the week\<close>

lemma rankLoop_keys:
  assumes "rankLoop getDay random meals bonusProductIds products days (plan, calls) = Inr (plan', calls')"
    and "distinct (map Day days)" and "set (map Day days) \<inter> set (map fst plan) = {}"
  shows "map fst plan' = map fst plan @ map Day days"
  using assms
proof (induction days arbitrary: plan calls)
  case Nil
  then show ?case by simp
next
  case (Cons day days)
  from Cons.prems(1) obtain plan1 calls1
    where step: "rankDay getDay random meals bonusProductIds products day (plan, calls) = Inr (plan1, calls1)"
      and rest: "rankLoop getDay random meals bonusProductIds products days (plan1, calls1) = Inr (plan', calls')"
    by (auto split: sum.splits)
  from rankDay_cases [OF step] obtain v where "plan1 = AList.update (Day day) v plan"
    by auto
  with Cons.prems(3) have keys1: "map fst plan1 = map fst plan @ [Day day]"
    by (simp add: update_keys)
  with Cons.prems(2,3) have "set (map Day days) \<inter> set (map fst plan1) = {}"
    by auto
  from Cons.IH [OF rest _ this] Cons.prems(2) keys1 show ?case by simp
qed

text \<open>
  C10. \<^verbatim>\<open>sortWeekByPreparationTime\<close> returns the reference it was given; the array at
  that reference now holds a permutation of its former contents, ascending by
  \<^verbatim>\<open>MaxPreparationTime\<close>; no other array changes. The entry point ranks over that
  array: the week it passes to \<^verbatim>\<open>rankMeals\<close> is the sorted one, and when the day names
  are distinct the keys of the plan appear in that order, the order in which the days
  were processed.
\<close>

theorem sortWeekByPreparationTime_in_place:
  assumes "Week < length s"
  shows "(case sortWeekByPreparationTime Week s of (week, s') \<Rightarrow>
            week = Week \<and> length s' = length s
            \<and> (\<forall>a < length s. a \<noteq> Week \<longrightarrow> s' ! a = s ! a)
            \<and> mset (s' ! week) = mset (s ! Week)
            \<and> sorted (map MaxPreparationTime (s' ! week)))
       \<and> (case main getDay random meals products Bonus Week s of (s', result) \<Rightarrow>
            s' ! Week = sortedByPreparationTime (s ! Week)
            \<and> result = rankMeals getDay random meals Bonus products (s' ! Week)
            \<and> sorted (map MaxPreparationTime (s' ! Week))
            \<and> (\<forall>plan. result = Inr plan \<and> distinct (map Day (s ! Week)) \<longrightarrow>
                  map fst plan = map Day (s' ! Week)))"
proof -
  have keys: "map fst plan = map Day week"
    if "rankMeals getDay random meals Bonus products week = Inr plan" "distinct (map Day week)"
    for plan week
  proof -
    from that(1) obtain calls
      where "rankLoop getDay random meals Bonus products week ([], 0) = Inr (plan, calls)"
      by (auto simp: rankMeals_def split: sum.splits)
    from rankLoop_keys [OF this that(2)] show ?thesis by simp
  qed
  have "distinct (map Day (sortedByPreparationTime week)) = distinct (map Day week)" for week
    by (metis sortedByPreparationTime_def mset_sort mset_map mset_eq_imp_distinct_iff)
  with keys assms show ?thesis
    by (simp add: sortWeekByPreparationTime_def main_def sortedByPreparationTime_def)
qed

theorem sortWeekByPreparationTime_in_place_witness:
  "(0::nat) < length [[monday, thursday, sunday]]
   \<and> sortWeekByPreparationTime 0 [[monday, thursday, sunday]] =
       (0, [[thursday, monday, sunday]])
   \<and> fst (main weekdayOf alwaysZero [pasta, curry] [pesto, chicken] [''202''] 0
           [[monday, thursday, sunday]]) ! 0 = [thursday, monday, sunday]
   \<and> map_sum id planSlugs
        (snd (main weekdayOf alwaysZero [pasta, curry] [pesto, chicken] [''202''] 0
           [[monday, thursday, sunday]])) =
       Inr [(''Thursday'', Some ''pasta''), (''Monday'', Some ''curry''), (''Sunday'', None)]"
proof -
  let ?s = "[[monday, thursday, sunday]]"
  let ?run = "main weekdayOf alwaysZero [pasta, curry] [pesto, chicken] [''202''] 0 ?s"
  have valid: "(0::nat) < length ?s" by simp
  have week: "sortedByPreparationTime (?s ! 0) = [thursday, monday, sunday]"
    by (simp add: sortedByPreparationTime_def monday_def thursday_def sunday_def)
  have sorted: "sortWeekByPreparationTime 0 ?s = (0, [[thursday, monday, sunday]])"
    by (simp only: sortWeekByPreparationTime_def week list_update_code)
  have ranked: "map_sum id planSlugs
          (rankMeals weekdayOf alwaysZero [pasta, curry] [''202''] [pesto, chicken]
             [thursday, monday, sunday]) =
        Inr [(''Thursday'', Some ''pasta''), (''Monday'', Some ''curry''), (''Sunday'', None)]"
    by code_simp
  from sortWeekByPreparationTime_in_place [OF valid, where getDay = weekdayOf
      and random = alwaysZero and meals = "[pasta, curry]" and products = "[pesto, chicken]"
      and Bonus = "[''202'']"]
  have "fst ?run ! 0 = sortedByPreparationTime (?s ! 0)"
    and "snd ?run = rankMeals weekdayOf alwaysZero [pasta, curry] [''202''] [pesto, chicken]
      (fst ?run ! 0)"
    by (simp_all only: case_prod_beta)
  with week ranked have "fst ?run ! 0 = [thursday, monday, sunday]"
    and "map_sum id planSlugs (snd ?run) =
      Inr [(''Thursday'', Some ''pasta''), (''Monday'', Some ''curry''), (''Sunday'', None)]"
    by (simp_all only:)
  with valid sorted show ?thesis by (simp only: simp_thms)
qed

section \<open>The shopping list URL\<close>

lemma fold_searchParams_append:
  "searchParams (fold (\<lambda>p. searchParams_append name (val p)) ps url) =
     searchParams url @ map (\<lambda>p. (name, val p)) ps
   \<and> address (fold (\<lambda>p. searchParams_append name (val p)) ps url) = address url"
  by (induction ps arbitrary: url) (simp_all add: searchParams_append_def)

lemma createShoppingList_eq:
  "createShoppingList ps =
     ''https://www.ah.nl/mijnlijst/add-multiple'' @
     (if ps = [] then []
      else ''?'' @ urlencodedSerialize
             (map (\<lambda>p. (''p'', ID p @ '':'' @ Number_toString (Quantity p))) ps))"
  by (simp add: createShoppingList_def Let_def URL_toString_def fold_searchParams_append
      URL_new_def)

lemma hexValue_hexDigit_all:
  "\<forall>k \<in> {0..<16}. isHexDigit (hexDigit k) \<and> hexValue (hexDigit k) = k"
  by code_simp

lemma hexValue_hexDigit:
  assumes "k < 16"
  shows "isHexDigit (hexDigit k)" "hexValue (hexDigit k) = k"
  using assms hexValue_hexDigit_all by simp_all

lemma hexDigit_safe_all:
  "\<forall>k \<in> {0..<16}. hexDigit k \<noteq> CHR ''&'' \<and> hexDigit k \<noteq> CHR ''=''"
  by code_simp

lemma urlencodedPlain_safe:
  assumes "urlencodedPlain c"
  shows "c \<noteq> CHR ''%''" "c \<noteq> CHR ''+''" "c \<noteq> CHR ''&''" "c \<noteq> CHR ''=''"
  using assms by (auto simp: urlencodedPlain_def)

lemma urldecoded_Cons:
  "c \<noteq> CHR ''%'' \<Longrightarrow>
     urldecoded (c # t) = (if c = CHR ''+'' then CHR '' '' else c) # urldecoded t"
  by (cases t rule: urldecoded.cases) simp_all

lemma urldecoded_percent:
  "isHexDigit h1 \<Longrightarrow> isHexDigit h2 \<Longrightarrow>
     urldecoded (CHR ''%'' # h1 # h2 # t) =
       char_of (hexValue h1 * 16 + hexValue h2) # urldecoded t"
  by simp

lemma urldecoded_urlencodedByte:
  "urldecoded (urlencodedByte c @ t) = c # urldecoded t"
proof -
  consider "c = CHR '' ''" | "c \<noteq> CHR '' ''" "urlencodedPlain c"
    | "c \<noteq> CHR '' ''" "\<not> urlencodedPlain c" by blast
  then show ?thesis
  proof cases
    case 1
    then show ?thesis by (simp add: urlencodedByte_def urldecoded_Cons)
  next
    case 2
    with urlencodedPlain_safe [OF 2(2)] show ?thesis
      by (simp add: urlencodedByte_def urldecoded_Cons)
  next
    case 3
    have "(of_char c :: nat) < 256" by simp
    then have hi: "(of_char c :: nat) div 16 < 16"
      by (intro less_mult_imp_div_less) simp
    have lo: "(of_char c :: nat) mod 16 < 16" by simp
    have "char_of (of_char c :: nat) = c"
      by (rule of_char_eqI [where 'a = nat]) simp
    then have "char_of ((of_char c :: nat) div 16 * 16 + of_char c mod 16) = c"
      by (simp only: div_mult_mod_eq)
    with 3 hexValue_hexDigit [OF hi] hexValue_hexDigit [OF lo] show ?thesis
      by (simp only: urlencodedByte_def if_False append_Cons append_Nil urldecoded_percent)
  qed
qed

lemma urldecoded_urlencoded: "urldecoded (urlencoded s) = s"
  by (induction s) (simp_all add: urlencoded_def urldecoded_urlencodedByte)

lemma urlencodedByte_safe:
  assumes "x \<in> set (urlencodedByte c)"
  shows "x \<noteq> CHR ''&'' \<and> x \<noteq> CHR ''=''"
proof -
  have "(of_char c :: nat) < 256" by simp
  then have "(of_char c :: nat) div 16 < 16"
    by (intro less_mult_imp_div_less) simp
  then have hi: "(of_char c :: nat) div 16 \<in> {0..<16}" by simp
  have lo: "(of_char c :: nat) mod 16 \<in> {0..<16}" by simp
  from assms hexDigit_safe_all hi lo show ?thesis
    by (auto simp: urlencodedByte_def split: if_splits dest: urlencodedPlain_safe)
qed

lemma urlencoded_safe:
  "CHR ''&'' \<notin> set (urlencoded s)" "CHR ''='' \<notin> set (urlencoded s)"
  using urlencodedByte_safe by (auto simp: urlencoded_def)

lemma splitOn_not_Nil [simp]: "splitOn sep s \<noteq> []"
  by (induction s) (auto split: list.splits)

lemma splitOn_piece: "sep \<notin> set w \<Longrightarrow> splitOn sep w = [w]"
  by (induction w) (auto split: list.splits)

lemma splitOn_append: "sep \<notin> set w \<Longrightarrow> splitOn sep (w @ sep # rest) = w # splitOn sep rest"
  by (induction w) (auto split: list.splits)

lemma splitOn_join:
  assumes "pieces \<noteq> []" "\<forall>w \<in> set pieces. sep \<notin> set w"
  shows "splitOn sep (join [sep] pieces) = pieces"
  using assms
  by (induction "[sep]" pieces rule: join.induct) (simp_all add: splitOn_piece splitOn_append)

lemma urlencodedParse_urlencodedSerialize:
  "urlencodedParse (urlencodedSerialize params) = params"
proof (cases "params = []")
  case True
  then show ?thesis by (simp add: urlencodedParse_def urlencodedSerialize_def)
next
  case False
  let ?pieces = "map (\<lambda>(name, val). urlencoded name @ ''='' @ urlencoded val) params"
  have ne: "?pieces \<noteq> []" using False by simp
  have safe: "\<forall>w \<in> set ?pieces. CHR ''&'' \<notin> set w"
    using urlencoded_safe(1) by auto
  have nonempty: "filter (\<lambda>piece. piece \<noteq> []) ?pieces = ?pieces"
    by (auto simp: filter_id_conv)
  have piece: "(urldecoded (takeWhile (\<lambda>c. c \<noteq> CHR ''='') (urlencoded name @ ''='' @ urlencoded val)),
         urldecoded (drop 1 (dropWhile (\<lambda>c. c \<noteq> CHR ''='') (urlencoded name @ ''='' @ urlencoded val))))
       = (name, val)" for name val
  proof -
    have all: "\<forall>c \<in> set (urlencoded name). c \<noteq> CHR ''=''"
      using urlencoded_safe(2) [of name] by auto
    have "takeWhile (\<lambda>c. c \<noteq> CHR ''='') (urlencoded name @ CHR ''='' # urlencoded val)
        = urlencoded name"
      using all by (simp add: takeWhile_tail)
    moreover have "dropWhile (\<lambda>c. c \<noteq> CHR ''='') (urlencoded name @ CHR ''='' # urlencoded val)
        = CHR ''='' # urlencoded val"
      using all by (simp add: dropWhile_append3)
    ultimately show ?thesis by (simp add: urldecoded_urlencoded)
  qed
  have "urlencodedParse (urlencodedSerialize params) =
      map (\<lambda>piece. (urldecoded (takeWhile (\<lambda>c. c \<noteq> CHR ''='') piece),
                     urldecoded (drop 1 (dropWhile (\<lambda>c. c \<noteq> CHR ''='') piece)))) ?pieces"
    using splitOn_join [OF ne safe]
    by (simp only: urlencodedParse_def urlencodedSerialize_def nonempty)
  also have "\<dots> = params"
    using piece by (simp add: comp_def case_prod_beta map_idI)
  finally show ?thesis .
qed

lemma queryOf_address:
  "queryOf ''https://www.ah.nl/mijnlijst/add-multiple'' = []"
  "queryOf (''https://www.ah.nl/mijnlijst/add-multiple'' @ ''?'' @ q) = q"
  by (simp_all add: queryOf_def)

text \<open>
  C9. \<^verbatim>\<open>createShoppingList\<close> returns one string: the fixed address
  \<^verbatim>\<open>https://www.ah.nl/mijnlijst/add-multiple\<close>, followed (when there are ingredients) by
  \<^verbatim>\<open>?\<close> and the serialised query parameters. Read back, the query carries one
  parameter \<^verbatim>\<open>p\<close> per ingredient, in the order of the input list, with the value
  \<^verbatim>\<open>id:quantity\<close> (in the string itself the colon is written \<^verbatim>\<open>%3A\<close>).
\<close>

theorem createShoppingList_encodes:
  "createShoppingList ps =
     ''https://www.ah.nl/mijnlijst/add-multiple'' @
     (if ps = [] then []
      else ''?'' @ urlencodedSerialize
             (map (\<lambda>p. (''p'', ID p @ '':'' @ Number_toString (Quantity p))) ps))
   \<and> urlencodedParse (queryOf (createShoppingList ps)) =
       map (\<lambda>p. (''p'', ID p @ '':'' @ Number_toString (Quantity p))) ps"
proof (cases "ps = []")
  case True
  then show ?thesis
    by (simp add: createShoppingList_eq queryOf_address(1) urlencodedParse_def)
next
  case False
  then show ?thesis
    by (simp only: createShoppingList_eq if_False queryOf_address(2)
        urlencodedParse_urlencodedSerialize simp_thms)
qed

theorem createShoppingList_encodes_witness:
  "createShoppingList [pesto, chicken\<lparr>Quantity := Num 12\<rparr>] =
     ''https://www.ah.nl/mijnlijst/add-multiple?p=101%3A1&p=202%3A12''
   \<and> urlencodedParse (queryOf (createShoppingList [pesto, chicken\<lparr>Quantity := Num 12\<rparr>])) =
       [(''p'', ''101:1''), (''p'', ''202:12'')]"
proof -
  let ?ps = "[pesto, chicken\<lparr>Quantity := Num 12\<rparr>]"
  have params: "map (\<lambda>p. (''p'', ID p @ '':'' @ Number_toString (Quantity p))) ?ps =
      [(''p'', ''101:1''), (''p'', ''202:12'')]"
    by code_simp
  have enc: "urlencodedSerialize [(''p'', ''101:1''), (''p'', ''202:12'')] = ''p=101%3A1&p=202%3A12''"
    by code_simp
  note both = createShoppingList_encodes [of ?ps, unfolded params]
  have url: "createShoppingList ?ps =
      ''https://www.ah.nl/mijnlijst/add-multiple?p=101%3A1&p=202%3A12''"
    using both [THEN conjunct1] by (simp add: enc)
  show ?thesis
  proof (intro conjI)
    show "createShoppingList ?ps =
        ''https://www.ah.nl/mijnlijst/add-multiple?p=101%3A1&p=202%3A12''"
      by (rule url)
    show "urlencodedParse (queryOf (createShoppingList ?ps)) =
        [(''p'', ''101:1''), (''p'', ''202:12'')]"
      by (rule both [THEN conjunct2])
  qed
qed

end
